theory Spec2Isabelle
  imports Main "HOL-Library.Word"
begin

section \<open>JavaScript values and errors\<close>

text \<open>
  The scrcpy client of ya-webadb, version 1.16 of the options
  (\<^verbatim>\<open>libraries/scrcpy/src/options/1_16/index.ts\<close>), and the subprocess protocol
  selection of the adb library. Bytes of a \<^verbatim>\<open>Uint8Array\<close> are \<open>8 word\<close>; a
  JavaScript number that holds an integer is an \<open>int\<close> (doubles compute exactly on
  integers below \<open>2^53\<close>, and the fields decoded from a parameter set are far smaller).
\<close>

type_synonym byte = "8 word"

text \<open>
  What a \<^verbatim>\<open>throw\<close> carries: the error class the \<^verbatim>\<open>catch\<close> of
  \<^verbatim>\<open>parseVideoStream\<close> tests with \<^verbatim>\<open>instanceof\<close>, or any other
  \<^verbatim>\<open>Error\<close> with its message.
\<close>

datatype js_error = BufferedStreamEndedError | JsError string

section \<open>Option values\<close>

datatype ScrcpyLogLevel = Verbose | Debug | Info | Warn | Error

fun ScrcpyLogLevel_raw :: "ScrcpyLogLevel \<Rightarrow> string" where
  "ScrcpyLogLevel_raw Verbose = ''verbose''"
| "ScrcpyLogLevel_raw Debug = ''debug''"
| "ScrcpyLogLevel_raw Info = ''info''"
| "ScrcpyLogLevel_raw Warn = ''warn''"
| "ScrcpyLogLevel_raw Error = ''error''"

datatype ScrcpyScreenOrientation =
  Initial | Unlocked | Portrait | Landscape | PortraitFlipped | LandscapeFlipped

fun ScrcpyScreenOrientation_raw :: "ScrcpyScreenOrientation \<Rightarrow> int" where
  "ScrcpyScreenOrientation_raw Initial = -2"
| "ScrcpyScreenOrientation_raw Unlocked = -1"
| "ScrcpyScreenOrientation_raw Portrait = 0"
| "ScrcpyScreenOrientation_raw Landscape = 1"
| "ScrcpyScreenOrientation_raw PortraitFlipped = 2"
| "ScrcpyScreenOrientation_raw LandscapeFlipped = 3"

text \<open>
  \<^verbatim>\<open>Partial<CodecOptionsInit>\<close>: the own properties of the object in insertion
  order, which is the order \<^verbatim>\<open>Object.entries\<close> lists them in. A property may be
  present and hold \<^verbatim>\<open>undefined\<close> (\<open>None\<close>). The codec profile and level are
  numeric enums.
\<close>

type_synonym CodecOptionsInit = "(string \<times> int option) list"

datatype CodecOptions = CodecOptions CodecOptionsInit

text \<open>Decimal rendering of an integer, as a template literal renders a number.\<close>

definition digit :: "nat \<Rightarrow> char" where
  "digit d = ''0123456789'' ! d"

fun nat_toString :: "nat \<Rightarrow> string" where
  "nat_toString n =
     (if n div 10 = 0 then [digit n] else nat_toString (n div 10) @ [digit (n mod 10)])"

declare nat_toString.simps [simp del]

definition number_toString :: "int \<Rightarrow> string" where
  "number_toString i =
     (if 0 \<le> i then nat_toString (nat i) else CHR ''-'' # nat_toString (nat \<bar>i\<bar>))"

text \<open>\<^verbatim>\<open>Array.prototype.join\<close> with a separator.\<close>

fun join :: "string \<Rightarrow> string list \<Rightarrow> string" where
  "join sep [] = []"
| "join sep [x] = x"
| "join sep (x # y # ys) = x @ sep @ join sep (y # ys)"

text \<open>
  \<^verbatim>\<open>CodecOptions.toOptionValue\<close>: the entries whose value is not
  \<^verbatim>\<open>undefined\<close>; \<^verbatim>\<open>undefined\<close> (\<open>None\<close>) when none is left, otherwise
  \<^verbatim>\<open>key=value\<close> joined by commas.
\<close>

fun toOptionValue :: "CodecOptions \<Rightarrow> string option" where
  "toOptionValue (CodecOptions v) =
     (let entries = filter (\<lambda>(key, val). val \<noteq> None) v in
      if length entries = 0 then None
      else Some (join '','' (map (\<lambda>(key, val). key @ ''='' @ number_toString (the val)) entries)))"

text \<open>
  A value read from the options object by key: \<^verbatim>\<open>this.value[key]\<close> is
  \<^verbatim>\<open>undefined\<close> for a key that is absent, and otherwise a string (the log
  level, a string enum), a number (also the orientation, a numeric enum), a boolean or a
  \<^verbatim>\<open>CodecOptions\<close> object.
\<close>

datatype js_value =
  JSUndefined | JSString string | JSNumber int | JSBoolean bool | JSCodecOptions CodecOptions

text \<open>
  JavaScript truthiness: \<^verbatim>\<open>undefined\<close>, \<^verbatim>\<open>false\<close>, \<^verbatim>\<open>0\<close> and the empty
  string are falsy, every object is truthy.
\<close>

fun truthy :: "js_value \<Rightarrow> bool" where
  "truthy JSUndefined = False"
| "truthy (JSString s) = (s \<noteq> [])"
| "truthy (JSNumber n) = (n \<noteq> 0)"
| "truthy (JSBoolean b) = b"
| "truthy (JSCodecOptions c) = True"

text \<open>The operator \<^verbatim>\<open>a || b\<close>: \<open>a\<close> when it is truthy, otherwise \<open>b\<close>.\<close>

definition js_or :: "js_value \<Rightarrow> js_value \<Rightarrow> js_value" where
  "js_or a b = (if truthy a then a else b)"

text \<open>
  Modelled from the spec: \<^verbatim>\<open>toScrcpyOptionValue\<close> of \<^verbatim>\<open>options/common.ts\<close>,
  which is not among the sources. The spec: render per type (enum: raw value; boolean:
  literal token; number: decimal string; CodecOptions: its own encoding, or the
  placeholder when empty), using the placeholder for genuinely absent values.
\<close>

fun toScrcpyOptionValue :: "js_value \<Rightarrow> string \<Rightarrow> string" where
  "toScrcpyOptionValue JSUndefined empty' = empty'"
| "toScrcpyOptionValue (JSString s) empty' = s"
| "toScrcpyOptionValue (JSNumber n) empty' = number_toString n"
| "toScrcpyOptionValue (JSBoolean b) empty' = (if b then ''true'' else ''false'')"
| "toScrcpyOptionValue (JSCodecOptions c) empty' =
     (case toOptionValue c of None \<Rightarrow> empty' | Some s \<Rightarrow> s)"

section \<open>ScrcpyOptions1_16\<close>

record ScrcpyClientConnectionOptions =
  control :: bool
  sendDummyByte :: bool
  sendDeviceMeta :: bool

text \<open>
  \<^verbatim>\<open>Partial<ScrcpyOptionsInit1_16>\<close>: every key is optional, \<open>None\<close> is a key that
  is absent (or holds \<^verbatim>\<open>undefined\<close>).
\<close>

record ScrcpyOptionsInit1_16 =
  logLevel :: "ScrcpyLogLevel option"
  maxSize :: "int option"
  bitRate :: "int option"
  maxFps :: "int option"
  lockVideoOrientation :: "ScrcpyScreenOrientation option"
  tunnelForward :: "bool option"
  crop :: "string option"
  sendFrameMeta :: "bool option"
  control :: "bool option"
  displayId :: "int option"
  showTouches :: "bool option"
  stayAwake :: "bool option"
  codecOptions :: "CodecOptions option"
  encoderName :: "string option"

definition emptyInit :: ScrcpyOptionsInit1_16 where
  "emptyInit = \<lparr> logLevel = None, maxSize = None, bitRate = None, maxFps = None,
     lockVideoOrientation = None, tunnelForward = None, crop = None, sendFrameMeta = None,
     control = None, displayId = None, showTouches = None, stayAwake = None,
     codecOptions = None, encoderName = None \<rparr>"

datatype option_key =
  K_logLevel | K_maxSize | K_bitRate | K_maxFps | K_lockVideoOrientation | K_tunnelForward
| K_crop | K_sendFrameMeta | K_control | K_displayId | K_showTouches | K_stayAwake
| K_codecOptions | K_encoderName

definition of_opt :: "('a \<Rightarrow> js_value) \<Rightarrow> 'a option \<Rightarrow> js_value" where
  "of_opt f x = (case x of None \<Rightarrow> JSUndefined | Some v \<Rightarrow> f v)"

text \<open>The property access \<^verbatim>\<open>obj[key]\<close>.\<close>

fun get_key :: "ScrcpyOptionsInit1_16 \<Rightarrow> option_key \<Rightarrow> js_value" where
  "get_key v K_logLevel = of_opt (\<lambda>l. JSString (ScrcpyLogLevel_raw l)) (logLevel v)"
| "get_key v K_maxSize = of_opt JSNumber (maxSize v)"
| "get_key v K_bitRate = of_opt JSNumber (bitRate v)"
| "get_key v K_maxFps = of_opt JSNumber (maxFps v)"
| "get_key v K_lockVideoOrientation =
     of_opt (\<lambda>l. JSNumber (ScrcpyScreenOrientation_raw l)) (lockVideoOrientation v)"
| "get_key v K_tunnelForward = of_opt JSBoolean (tunnelForward v)"
| "get_key v K_crop = of_opt JSString (crop v)"
| "get_key v K_sendFrameMeta = of_opt JSBoolean (sendFrameMeta v)"
| "get_key v K_control = of_opt JSBoolean (control v)"
| "get_key v K_displayId = of_opt JSNumber (displayId v)"
| "get_key v K_showTouches = of_opt JSBoolean (showTouches v)"
| "get_key v K_stayAwake = of_opt JSBoolean (stayAwake v)"
| "get_key v K_codecOptions = of_opt JSCodecOptions (codecOptions v)"
| "get_key v K_encoderName = of_opt JSString (encoderName v)"

text \<open>
  An instance of the class. Its one field is \<^verbatim>\<open>value\<close> (here \<open>optValue\<close>).
  The constructor's \<^verbatim>\<open>new.target === ScrcpyOptions1_16\<close> is the argument
  \<open>is_base\<close>: true when the class itself is instantiated, false when a subclass is.
\<close>

record ScrcpyOptions1_16 =
  optValue :: ScrcpyOptionsInit1_16

definition new_ScrcpyOptions1_16 :: "bool \<Rightarrow> ScrcpyOptionsInit1_16 \<Rightarrow> ScrcpyOptions1_16" where
  "new_ScrcpyOptions1_16 is_base v0 =
     (let v1 = (if is_base \<and> logLevel v0 = Some Verbose
                then v0\<lparr>logLevel := Some Debug\<rparr> else v0);
          v2 = (if is_base \<and> lockVideoOrientation v1 = Some Initial
                then v1\<lparr>lockVideoOrientation := Some Unlocked\<rparr> else v1)
      in \<lparr> optValue = v2 \<rparr>)"

definition getArgumentOrder :: "option_key list" where
  "getArgumentOrder =
     [K_logLevel, K_maxSize, K_bitRate, K_maxFps, K_lockVideoOrientation, K_tunnelForward,
      K_crop, K_sendFrameMeta, K_control, K_displayId, K_showTouches, K_stayAwake,
      K_codecOptions, K_encoderName]"

definition getDefaultValue :: ScrcpyOptionsInit1_16 where
  "getDefaultValue = \<lparr> logLevel = Some Debug, maxSize = Some 0, bitRate = Some 8000000,
     maxFps = Some 0, lockVideoOrientation = Some Unlocked, tunnelForward = Some False,
     crop = Some ''-'', sendFrameMeta = Some True, control = Some True, displayId = Some 0,
     showTouches = Some False, stayAwake = Some False,
     codecOptions = Some (CodecOptions []), encoderName = Some ''-'' \<rparr>"

definition formatServerArguments :: "ScrcpyOptions1_16 \<Rightarrow> string list" where
  "formatServerArguments this =
     (let defaults = getDefaultValue in
      map (\<lambda>key. toScrcpyOptionValue (js_or (get_key (optValue this) key) (get_key defaults key)) ''-'')
        getArgumentOrder)"

datatype 'adb ScrcpyClientConnection =
  ScrcpyClientForwardConnection 'adb ScrcpyClientConnectionOptions
| ScrcpyClientReverseConnection 'adb ScrcpyClientConnectionOptions

text \<open>
  \<^verbatim>\<open>if (this.value.tunnelForward)\<close> tests truthiness: only \<^verbatim>\<open>true\<close> passes,
  \<^verbatim>\<open>false\<close> and \<^verbatim>\<open>undefined\<close> do not.
\<close>

definition createConnection :: "ScrcpyOptions1_16 \<Rightarrow> 'adb \<Rightarrow> 'adb ScrcpyClientConnection" where
  "createConnection this adb =
     (let options = \<lparr> ScrcpyClientConnectionOptions.control = True,
                       sendDummyByte = True, sendDeviceMeta = True \<rparr> in
      if truthy (get_key (optValue this) K_tunnelForward)
      then ScrcpyClientForwardConnection adb options
      else ScrcpyClientReverseConnection adb options)"

section \<open>The video stream\<close>

text \<open>
  Modelled from the spec: the buffered stream's exact-count read (package
  \<^verbatim>\<open>@yume-chan/adb\<close>) is not among the sources. The stream is the bytes the source
  delivers before it closes; a read of \<open>n\<close> bytes takes them off the front, and raises
  \<^verbatim>\<open>BufferedStreamEndedError\<close> when the source closes before \<open>n\<close> bytes came.
\<close>

definition read :: "nat \<Rightarrow> byte list \<Rightarrow> js_error + (byte list \<times> byte list)" where
  "read n bs = (if length bs < n then Inl BufferedStreamEndedError else Inr (take n bs, drop n bs))"

text \<open>Big-endian integers, the byte order the struct library uses unless told otherwise.\<close>

definition getUint :: "byte list \<Rightarrow> nat" where
  "getUint bs = foldl (\<lambda>acc b. acc * 256 + unat b) 0 bs"

definition getInt64 :: "byte list \<Rightarrow> int" where
  "getInt64 bs = (let u = int (getUint bs) in if u < 2 ^ 63 then u else u - 2 ^ 64)"

record VideoPacket =
  pts :: int
  size_u32 :: nat
  data :: "byte list"

text \<open>
  Modelled from the spec: \<^verbatim>\<open>Struct.deserialize\<close> (package \<^verbatim>\<open>@yume-chan/struct\<close>)
  is not among the sources; the schema is the source's
  \<^verbatim>\<open>new Struct().int64('pts').uint32('size').uint8Array('data', { lengthField: 'size' })\<close>.
  The spec: decode consumes bytes from a buffered source one field at a time and returns a
  fully populated record; it fails with a stream-ended signal if the source closes before
  a record completes. The result is the record and the rest of the stream.
\<close>

definition VideoPacket_deserialize :: "byte list \<Rightarrow> js_error + (VideoPacket \<times> byte list)" where
  "VideoPacket_deserialize bs =
     (case read 8 bs of
        Inl e \<Rightarrow> Inl e
      | Inr (b1, r1) \<Rightarrow>
          (case read 4 r1 of
             Inl e \<Rightarrow> Inl e
           | Inr (b2, r2) \<Rightarrow>
               (case read (getUint b2) r2 of
                  Inl e \<Rightarrow> Inl e
                | Inr (d, r3) \<Rightarrow>
                    Inr (\<lparr> pts = getInt64 b1, size_u32 = getUint b2, data = d \<rparr>, r3))))"

definition NoPts :: int where
  "NoPts = -1"

text \<open>
  The fields of the parsed sequence parameter set that \<^verbatim>\<open>parseVideoStream\<close>
  reads. The parser \<^verbatim>\<open>parse_sequence_parameter_set\<close> (\<^verbatim>\<open>./sps.ts\<close>) is not
  among the sources: it is the parameter \<open>parse\<close> of the functions below, and may throw.
\<close>

record SequenceParameterSet =
  profile_idc :: int
  constraint_set :: int
  level_idc :: int
  pic_width_in_mbs_minus1 :: int
  pic_height_in_map_units_minus1 :: int
  frame_mbs_only_flag :: int
  frame_crop_left_offset :: int
  frame_crop_right_offset :: int
  frame_crop_top_offset :: int
  frame_crop_bottom_offset :: int

record H264Configuration =
  profileIndex :: int
  constraintSet :: int
  levelIndex :: int
  encodedWidth :: int
  encodedHeight :: int
  cropLeft :: int
  cropRight :: int
  cropTop :: int
  cropBottom :: int
  croppedWidth :: int
  croppedHeight :: int

datatype VideoStreamPacket = Configuration H264Configuration | Frame "byte list"

text \<open>
  The state one \<^verbatim>\<open>parseVideoStream\<close> call closes over: the buffered stream and the
  variable \<^verbatim>\<open>header\<close> (\<open>None\<close> is \<^verbatim>\<open>undefined\<close>). A \<^verbatim>\<open>Uint8Array\<close> is an
  object, so \<^verbatim>\<open>if (header)\<close> passes for every stored header, also an empty one.
\<close>

record decoder_state =
  stream :: "byte list"
  header :: "byte list option"

text \<open>What one \<^verbatim>\<open>pull\<close> does to the controller, or the error it throws.\<close>

datatype pull_outcome = Enqueue VideoStreamPacket | Close | Throw js_error

text \<open>
  The body of the \<^verbatim>\<open>try\<close> block: the event it enqueues, or the error thrown in it,
  with the state it leaves. After a failed read the source has ended and nothing is left.
\<close>

definition pull_try ::
  "(byte list \<Rightarrow> js_error + SequenceParameterSet) \<Rightarrow> decoder_state
   \<Rightarrow> (js_error + VideoStreamPacket) \<times> decoder_state" where
  "pull_try parse st =
     (case VideoPacket_deserialize (stream st) of
        Inl e \<Rightarrow> (Inl e, st\<lparr>stream := []\<rparr>)
      | Inr (packet, rest) \<Rightarrow>
          if pts packet = NoPts then
            (case parse (data packet) of
               Inl e \<Rightarrow> (Inl e, st\<lparr>stream := rest\<rparr>)
             | Inr sequenceParameterSet \<Rightarrow>
                 (let encodedWidth = (pic_width_in_mbs_minus1 sequenceParameterSet + 1) * 16;
                      encodedHeight = (pic_height_in_map_units_minus1 sequenceParameterSet + 1)
                                        * (2 - frame_mbs_only_flag sequenceParameterSet) * 16;
                      cropLeft = frame_crop_left_offset sequenceParameterSet * 2;
                      cropRight = frame_crop_right_offset sequenceParameterSet * 2;
                      cropTop = frame_crop_top_offset sequenceParameterSet * 2;
                      cropBottom = frame_crop_bottom_offset sequenceParameterSet * 2;
                      croppedWidth = encodedWidth - cropLeft - cropRight;
                      croppedHeight = encodedHeight - cropTop - cropBottom
                  in (Inr (Configuration
                        \<lparr> profileIndex = profile_idc sequenceParameterSet,
                          constraintSet = constraint_set sequenceParameterSet,
                          levelIndex = level_idc sequenceParameterSet,
                          encodedWidth = encodedWidth,
                          encodedHeight = encodedHeight,
                          cropLeft = cropLeft,
                          cropRight = cropRight,
                          cropTop = cropTop,
                          cropBottom = cropBottom,
                          croppedWidth = croppedWidth,
                          croppedHeight = croppedHeight \<rparr>),
                      st\<lparr>stream := rest, header := Some (data packet)\<rparr>)))
          else
            (case header st of
               Some h \<Rightarrow> (Inr (Frame (h @ data packet)), st\<lparr>stream := rest, header := None\<rparr>)
             | None \<Rightarrow> (Inr (Frame (data packet)), st\<lparr>stream := rest\<rparr>)))"

text \<open>
  \<^verbatim>\<open>pull\<close> with its \<^verbatim>\<open>catch\<close>: a \<^verbatim>\<open>BufferedStreamEndedError\<close> closes the
  controller, any other error is thrown again.
\<close>

definition pull ::
  "(byte list \<Rightarrow> js_error + SequenceParameterSet) \<Rightarrow> decoder_state
   \<Rightarrow> pull_outcome \<times> decoder_state" where
  "pull parse st =
     (case pull_try parse st of
        (Inr packet, st') \<Rightarrow> (Enqueue packet, st')
      | (Inl e, st') \<Rightarrow>
          if e = BufferedStreamEndedError then (Close, st') else (Throw e, st'))"

text \<open>
  How the stream a consumer reads ends: closed, or errored with what \<^verbatim>\<open>pull\<close>
  threw.
\<close>

datatype stream_end = Closed | Errored js_error

text \<open>
  The stream of the metadata mode as a consumer that reads to the end sees it: the events
  of the successive pulls, until one closes the stream or throws.
\<close>

function run ::
  "(byte list \<Rightarrow> js_error + SequenceParameterSet) \<Rightarrow> decoder_state
   \<Rightarrow> VideoStreamPacket list \<times> stream_end" where
  "run parse st =
     (case pull parse st of
        (Enqueue packet, st') \<Rightarrow> (case run parse st' of (packets, e) \<Rightarrow> (packet # packets, e))
      | (Close, st') \<Rightarrow> ([], Closed)
      | (Throw e, st') \<Rightarrow> ([], Errored e))"
  by pat_completeness auto
termination
  by (relation "measure (\<lambda>(parse, st). length (stream st))")
     (auto simp: pull_def pull_try_def Let_def VideoPacket_deserialize_def read_def
        split: sum.splits prod.splits option.splits if_splits)

declare run.simps [simp del]

text \<open>
  \<^verbatim>\<open>parseVideoStream\<close> over a source that delivers the chunks \<open>chunks\<close> and then
  closes. With \<^verbatim>\<open>sendFrameMeta === false\<close> the stream is released and every chunk is
  wrapped as a frame; otherwise the bytes are read through the buffered stream by
  \<^verbatim>\<open>pull\<close>, with \<^verbatim>\<open>header\<close> undefined at first.
\<close>

definition parseVideoStream ::
  "(byte list \<Rightarrow> js_error + SequenceParameterSet) \<Rightarrow> ScrcpyOptions1_16 \<Rightarrow> byte list list
   \<Rightarrow> VideoStreamPacket list \<times> stream_end" where
  "parseVideoStream parse this chunks =
     (if get_key (optValue this) K_sendFrameMeta = JSBoolean False
      then (map (\<lambda>chunk. Frame chunk) chunks, Closed)
      else run parse \<lparr> stream = concat chunks, header = None \<rparr>)"

section \<open>Control messages\<close>

text \<open>
  The key event actions of \<^verbatim>\<open>message.ts\<close>, which is not among the sources; the
  back or screen on message has the actions down and up.
\<close>

datatype AndroidKeyEventAction = Down | Up

text \<open>
  \<^verbatim>\<open>ScrcpyBackOrScreenOnEvent1_18\<close>: the type discriminant, a \<^verbatim>\<open>uint8\<close> on the
  wire (its number is a constant of \<^verbatim>\<open>message.ts\<close>, kept here as the field's
  value), and the action.
\<close>

record ScrcpyBackOrScreenOnEvent1_18 =
  type :: byte
  action :: AndroidKeyEventAction

text \<open>
  \<^verbatim>\<open>ScrcpyBackOrScreenOnEvent1_16.serialize\<close>: the struct has the one field
  \<^verbatim>\<open>uint8('type')\<close>.
\<close>

definition ScrcpyBackOrScreenOnEvent1_16_serialize :: "ScrcpyBackOrScreenOnEvent1_18 \<Rightarrow> byte list" where
  "ScrcpyBackOrScreenOnEvent1_16_serialize message = [type message]"

definition serializeBackOrScreenOnControlMessage ::
  "ScrcpyBackOrScreenOnEvent1_18 \<Rightarrow> byte list option" where
  "serializeBackOrScreenOnControlMessage message =
     (if action message = Down then Some (ScrcpyBackOrScreenOnEvent1_16_serialize message)
      else None)"

section \<open>Subprocess protocol selection\<close>

text \<open>
  \<^verbatim>\<open>AdbSubprocessProtocolConstructor\<close> (and the older \<^verbatim>\<open>AdbShellConstructor\<close>):
  the static methods \<^verbatim>\<open>isSupported\<close> and \<^verbatim>\<open>spawn\<close> of a protocol class, with
  a name that tells the classes apart.
\<close>

record ('adb, 'p) AdbSubprocessProtocolConstructor =
  name :: string
  isSupported :: "'adb \<Rightarrow> bool"
  spawn :: "'adb \<Rightarrow> string \<Rightarrow> 'p"

text \<open>
  The loop \<^verbatim>\<open>for (const item of protocols) if (await item.isSupported(adb)) { Constructor = item; break; }\<close>
  from a variable that starts \<^verbatim>\<open>undefined\<close>.
\<close>

fun first_supported ::
  "'adb \<Rightarrow> ('adb, 'p) AdbSubprocessProtocolConstructor list
   \<Rightarrow> ('adb, 'p) AdbSubprocessProtocolConstructor option" where
  "first_supported adb [] = None"
| "first_supported adb (item # items) =
     (if isSupported item adb then Some item else first_supported adb items)"

text \<open>
  \<^verbatim>\<open>AdbSubprocess.createProtocol\<close>. \<open>DefaultOptions\<close> is the default list of
  the module (its two classes are not among the sources); \<open>options\<close> is the
  \<^verbatim>\<open>protocols\<close> of the caller's options, \<open>None\<close> when the caller gave none, and
  \<^verbatim>\<open>{ ...DefaultOptions, ...options }\<close> takes the caller's list when there is one.
  The checks \<^verbatim>\<open>isSupported\<close> are taken to answer (a check that throws, and an
  options object that holds \<^verbatim>\<open>protocols: undefined\<close>, are outside the model). A
  class is an object, so \<^verbatim>\<open>!Constructor\<close> holds exactly when the loop found none.
\<close>

definition createProtocol ::
  "('adb, 'p) AdbSubprocessProtocolConstructor list \<Rightarrow> 'adb \<Rightarrow> string
   \<Rightarrow> ('adb, 'p) AdbSubprocessProtocolConstructor list option \<Rightarrow> js_error + 'p" where
  "createProtocol DefaultOptions adb command options =
     (let protocols = (case options of None \<Rightarrow> DefaultOptions | Some ps \<Rightarrow> ps) in
      case first_supported adb protocols of
        None \<Rightarrow> Inl (JsError ''No specified protocol is supported by the device'')
      | Some Constructor \<Rightarrow> Inr (spawn Constructor adb command))"

text \<open>\<^verbatim>\<open>AdbChildProcess.createShell\<close>, the older form of the same selection.\<close>

definition createShell ::
  "('adb, 'p) AdbSubprocessProtocolConstructor list \<Rightarrow> 'adb \<Rightarrow> string
   \<Rightarrow> ('adb, 'p) AdbSubprocessProtocolConstructor list option \<Rightarrow> js_error + 'p" where
  "createShell DefaultOptions adb command options =
     (let shells = (case options of None \<Rightarrow> DefaultOptions | Some ps \<Rightarrow> ps) in
      case first_supported adb shells of
        None \<Rightarrow> Inl (JsError ''No specified shell is supported by the device'')
      | Some shell \<Rightarrow> Inr (spawn shell adb command))"

section \<open>Helper facts\<close>

lemma read_Inr:
  "read n bs = Inr (a, r) \<Longrightarrow> bs = a @ r \<and> length a = n"
  by (auto simp: read_def split: if_splits)

lemma VideoPacket_deserialize_length:
  assumes "VideoPacket_deserialize bs = Inr (p, r)"
  shows "length bs = 12 + size_u32 p + length r" and "length (data p) = size_u32 p"
proof -
  from assms obtain b1 r1 b2 r2 d where
    r: "read 8 bs = Inr (b1, r1)" "read 4 r1 = Inr (b2, r2)"
       "read (getUint b2) r2 = Inr (d, r)" and p: "p = \<lparr> pts = getInt64 b1, size_u32 = getUint b2, data = d \<rparr>"
    by (auto simp: VideoPacket_deserialize_def split: sum.splits prod.splits)
  from r(1) have 1: "bs = b1 @ r1" "length b1 = 8" by (auto dest: read_Inr)
  from r(2) have 2: "r1 = b2 @ r2" "length b2 = 4" by (auto dest: read_Inr)
  from r(3) have 3: "r2 = d @ r" "length d = getUint b2" by (auto dest: read_Inr)
  show "length bs = 12 + size_u32 p + length r" using 1 2 3 p by simp
  show "length (data p) = size_u32 p" using 3 p by simp
qed

lemma pull_Enqueue_stream:
  assumes "pull parse st = (Enqueue ev, st')"
  shows "length (stream st') < length (stream st)"
proof -
  from assms obtain p r where d: "VideoPacket_deserialize (stream st) = Inr (p, r)"
    and s: "stream st' = r"
    by (auto simp: pull_def pull_try_def Let_def
        split: sum.splits prod.splits if_splits option.splits)
  from VideoPacket_deserialize_length(1)[OF d] s show ?thesis by simp
qed

lemma VideoPacket_deserialize_Inl_iff:
  "VideoPacket_deserialize bs = Inl e \<longleftrightarrow>
     e = BufferedStreamEndedError \<and>
     (length bs < 12 \<or> length bs < 12 + getUint (take 4 (drop 8 bs)))"
  by (auto simp: VideoPacket_deserialize_def read_def split: sum.splits prod.splits if_splits)

lemma pull_Throw_not_stream_ended:
  "pull parse st = (Throw e, st') \<Longrightarrow> e \<noteq> BufferedStreamEndedError \<and> (\<exists>d. parse d = Inl e)"
  by (auto simp: pull_def pull_try_def Let_def VideoPacket_deserialize_Inl_iff
      split: sum.splits prod.splits option.splits if_splits)

text \<open>
  Over a whole stream: the only errors a consumer of the metadata mode ever sees are
  those the parameter set parser threw, and none of them is the stream-ended error.
\<close>

lemma run_Errored_from_parse:
  "snd (run parse st) = Errored e \<Longrightarrow> e \<noteq> BufferedStreamEndedError \<and> (\<exists>d. parse d = Inl e)"
proof (induction parse st rule: run.induct)
  case (1 parse st)
  obtain out st' where p: "pull parse st = (out, st')" by (cases "pull parse st")
  show ?case
  proof (cases out)
    case (Enqueue packet)
    with p "1.prems" have "snd (run parse st') = Errored e"
      by (simp add: run.simps [of parse st] split: prod.splits)
    with "1.IH" p Enqueue show ?thesis by simp
  next
    case Close
    with p "1.prems" show ?thesis by (simp add: run.simps [of parse st])
  next
    case (Throw e')
    with p "1.prems" have "e' = e" by (simp add: run.simps [of parse st])
    with p Throw show ?thesis using pull_Throw_not_stream_ended by blast
  qed
qed

text \<open>
  Over two pulls: a parameter set packet followed by a frame packet gives the
  configuration and then one frame, the parameter set's bytes followed by the frame's.
\<close>

lemma run_Configuration_then_Frame:
  assumes "VideoPacket_deserialize (stream st) = Inr (p1, r1)" and "pts p1 = NoPts"
    and "parse (data p1) = Inr sps"
    and "VideoPacket_deserialize r1 = Inr (p2, r2)" and "pts p2 \<noteq> NoPts"
  shows "\<exists>c packets e. run parse st = (Configuration c # Frame (data p1 @ data p2) # packets, e)"
proof -
  obtain c where 1: "pull parse st
      = (Enqueue (Configuration c), st\<lparr>stream := r1, header := Some (data p1)\<rparr>)"
    using assms(1-3) by (simp add: pull_def pull_try_def Let_def)
  have 2: "pull parse (st\<lparr>stream := r1, header := Some (data p1)\<rparr>)
      = (Enqueue (Frame (data p1 @ data p2)), st\<lparr>stream := r2, header := None\<rparr>)"
    using assms(4,5) by (simp add: pull_def pull_try_def)
  obtain packets e where 3: "run parse (st\<lparr>stream := r2, header := None\<rparr>) = (packets, e)"
    by (cases "run parse (st\<lparr>stream := r2, header := None\<rparr>)")
  have "run parse st = (Configuration c # Frame (data p1 @ data p2) # packets, e)"
    by (simp add: run.simps [of parse st]
        run.simps [of parse "st\<lparr>stream := r1, header := Some (data p1)\<rparr>"] 1 2 3)
  then show ?thesis by blast
qed

text \<open>
  What \<^verbatim>\<open>formatServerArguments\<close> emits at each place of the order: the user's
  value when it is truthy, the default when the key is absent or its value is falsy.
\<close>

lemma formatServerArguments_nth:
  "i < length getArgumentOrder \<Longrightarrow>
   formatServerArguments this ! i =
     toScrcpyOptionValue
       (if truthy (get_key (optValue this) (getArgumentOrder ! i))
        then get_key (optValue this) (getArgumentOrder ! i)
        else get_key getDefaultValue (getArgumentOrder ! i)) ''-''"
  by (simp add: formatServerArguments_def js_or_def)

lemma first_supported_None_iff:
  "first_supported adb ps = None \<longleftrightarrow> (\<forall>p\<in>set ps. \<not> isSupported p adb)"
  by (induction ps) auto

lemma first_supported_first:
  "(\<forall>p\<in>set pre. \<not> isSupported p adb) \<Longrightarrow> isSupported c adb \<Longrightarrow>
   first_supported adb (pre @ c # post) = Some c"
  by (induction pre) auto

lemma first_supported_Some:
  "first_supported adb ps = Some c \<Longrightarrow> c \<in> set ps \<and> isSupported c adb"
  by (induction ps) (auto split: if_splits)

section \<open>The claims\<close>

text \<open>
  C1. The claim: for every key of the argument order, \<^verbatim>\<open>formatServerArguments\<close>
  emits the user's value when one is present, also a falsy one, and the default
  otherwise. The code selects with \<^verbatim>\<open>this.value[key] || defaults[key]\<close>, so a
  falsy user value gives way to the default: with \<^verbatim>\<open>lockVideoOrientation\<close> Portrait
  (0), \<^verbatim>\<open>sendFrameMeta\<close> false and \<^verbatim>\<open>control\<close> false the arguments are those
  of the empty configuration, \<^verbatim>\<open>-1\<close>, \<^verbatim>\<open>true\<close> and \<^verbatim>\<open>true\<close> at
  their places.
\<close>

theorem formatServerArguments_falsy_user_value_replaced:
  "formatServerArguments (new_ScrcpyOptions1_16 True
      (emptyInit\<lparr> lockVideoOrientation := Some Portrait, sendFrameMeta := Some False,
                   control := Some False \<rparr>))
     = [''debug'', ''0'', ''8000000'', ''0'', ''-1'', ''false'', ''-'', ''true'', ''true'', ''0'',
        ''false'', ''false'', ''-'', ''-'']
   \<and> formatServerArguments (new_ScrcpyOptions1_16 True
      (emptyInit\<lparr> lockVideoOrientation := Some Portrait, sendFrameMeta := Some False,
                   control := Some False \<rparr>))
     = formatServerArguments (new_ScrcpyOptions1_16 True emptyInit)"
  by (simp add: formatServerArguments_def new_ScrcpyOptions1_16_def emptyInit_def
      getArgumentOrder_def getDefaultValue_def js_or_def of_opt_def number_toString_def digit_def
      nat_toString.simps)

text \<open>
  C2. In the metadata mode a pull enqueues a frame exactly when it decoded a packet whose
  pts is not \<open>NoPts\<close>; the frame is the stored header followed by the packet's data when
  a header is stored, and the packet's data as it is when none is; the header is
  undefined afterwards.
\<close>

theorem pull_Frame_iff:
  "pull parse st = (Enqueue (Frame frameData), st') \<longleftrightarrow>
   (\<exists>packet rest.
      VideoPacket_deserialize (stream st) = Inr (packet, rest) \<and> pts packet \<noteq> NoPts \<and>
      frameData = (case header st of Some h \<Rightarrow> h @ data packet | None \<Rightarrow> data packet) \<and>
      st' = \<lparr> stream = rest, header = None \<rparr>)"
  by (auto simp: pull_def pull_try_def Let_def
      split: sum.splits prod.splits option.splits if_splits)

theorem pull_Frame_iff_witness:
  "pull (\<lambda>d. Inl (JsError ''not a parameter set''))
      \<lparr> stream = [0, 0, 0, 0, 0, 0, 0, 5, 0, 0, 0, 2, 170, 187], header = Some [1, 2, 3] \<rparr>
     = (Enqueue (Frame [1, 2, 3, 170, 187]), \<lparr> stream = [], header = None \<rparr>)
   \<and> pull (\<lambda>d. Inl (JsError ''not a parameter set''))
      \<lparr> stream = [0, 0, 0, 0, 0, 0, 0, 5, 0, 0, 0, 2, 170, 187], header = None \<rparr>
     = (Enqueue (Frame [170, 187]), \<lparr> stream = [], header = None \<rparr>)"
proof -
  have d: "VideoPacket_deserialize [0, 0, 0, 0, 0, 0, 0, 5, 0, 0, 0, 2, 170, 187]
             = Inr (\<lparr> pts = 5, size_u32 = 2, data = [170, 187] \<rparr>, [])"
    by (simp add: VideoPacket_deserialize_def read_def getUint_def getInt64_def)
  show ?thesis
    by (simp add: pull_Frame_iff d NoPts_def)
qed

text \<open>
  C3. A packet whose pts is \<open>NoPts\<close> and whose data the parser accepts makes the pull
  enqueue a configuration with
  encodedWidth = (pic_width_in_mbs_minus1 + 1) * 16,
  encodedHeight = (pic_height_in_map_units_minus1 + 1) * (2 - frame_mbs_only_flag) * 16,
  each crop twice its offset, and the cropped width and height the encoded ones less the
  crops of their two sides. The witness is the spec's example: 79, 44 and 1 give
  1280 by 720, and a left offset of 2 gives a crop of 4 and a cropped width of 1276.
\<close>

theorem pull_Configuration_geometry:
  assumes "VideoPacket_deserialize (stream st) = Inr (packet, rest)"
    and "pts packet = NoPts"
    and "parse (data packet) = Inr sps"
  shows "\<exists>c. pull parse st
             = (Enqueue (Configuration c), \<lparr> stream = rest, header = Some (data packet) \<rparr>) \<and>
     encodedWidth c = (pic_width_in_mbs_minus1 sps + 1) * 16 \<and>
     encodedHeight c =
       (pic_height_in_map_units_minus1 sps + 1) * (2 - frame_mbs_only_flag sps) * 16 \<and>
     cropLeft c = frame_crop_left_offset sps * 2 \<and>
     cropRight c = frame_crop_right_offset sps * 2 \<and>
     cropTop c = frame_crop_top_offset sps * 2 \<and>
     cropBottom c = frame_crop_bottom_offset sps * 2 \<and>
     croppedWidth c = encodedWidth c - cropLeft c - cropRight c \<and>
     croppedHeight c = encodedHeight c - cropTop c - cropBottom c"
  using assms by (simp add: pull_def pull_try_def Let_def)

theorem pull_Configuration_geometry_witness:
  "(\<exists>c. pull (\<lambda>d. Inr \<lparr> profile_idc = 66, constraint_set = 192, level_idc = 31,
                  pic_width_in_mbs_minus1 = 79, pic_height_in_map_units_minus1 = 44,
                  frame_mbs_only_flag = 1, frame_crop_left_offset = 0,
                  frame_crop_right_offset = 0, frame_crop_top_offset = 0,
                  frame_crop_bottom_offset = 0 \<rparr>)
          \<lparr> stream = [255, 255, 255, 255, 255, 255, 255, 255, 0, 0, 0, 1, 103], header = None \<rparr>
        = (Enqueue (Configuration c), \<lparr> stream = [], header = Some [103] \<rparr>) \<and>
      encodedWidth c = 1280 \<and> encodedHeight c = 720 \<and>
      croppedWidth c = 1280 \<and> croppedHeight c = 720)
   \<and> (\<exists>c. pull (\<lambda>d. Inr \<lparr> profile_idc = 66, constraint_set = 192, level_idc = 31,
                  pic_width_in_mbs_minus1 = 79, pic_height_in_map_units_minus1 = 44,
                  frame_mbs_only_flag = 1, frame_crop_left_offset = 2,
                  frame_crop_right_offset = 0, frame_crop_top_offset = 0,
                  frame_crop_bottom_offset = 0 \<rparr>)
          \<lparr> stream = [255, 255, 255, 255, 255, 255, 255, 255, 0, 0, 0, 1, 103], header = None \<rparr>
        = (Enqueue (Configuration c), \<lparr> stream = [], header = Some [103] \<rparr>) \<and>
      cropLeft c = 4 \<and> croppedWidth c = 1276)"
proof -
  have d: "VideoPacket_deserialize
             (stream \<lparr> stream = [255, 255, 255, 255, 255, 255, 255, 255, 0, 0, 0, 1, 103],
                       header = None \<rparr>)
             = Inr (\<lparr> pts = -1, size_u32 = 1, data = [103] \<rparr>, [])"
    by (simp add: VideoPacket_deserialize_def read_def getUint_def getInt64_def)
  have n: "pts \<lparr> pts = -1, size_u32 = 1, data = [103] \<rparr> = NoPts"
    by (simp add: NoPts_def)
  show ?thesis
    using pull_Configuration_geometry [OF d n,
        of "\<lambda>d. Inr \<lparr> profile_idc = 66, constraint_set = 192, level_idc = 31,
                  pic_width_in_mbs_minus1 = 79, pic_height_in_map_units_minus1 = 44,
                  frame_mbs_only_flag = 1, frame_crop_left_offset = 0,
                  frame_crop_right_offset = 0, frame_crop_top_offset = 0,
                  frame_crop_bottom_offset = 0 \<rparr>"]
      pull_Configuration_geometry [OF d n,
        of "\<lambda>d. Inr \<lparr> profile_idc = 66, constraint_set = 192, level_idc = 31,
                  pic_width_in_mbs_minus1 = 79, pic_height_in_map_units_minus1 = 44,
                  frame_mbs_only_flag = 1, frame_crop_left_offset = 2,
                  frame_crop_right_offset = 0, frame_crop_top_offset = 0,
                  frame_crop_bottom_offset = 0 \<rparr>"]
    by auto
qed

text \<open>
  C4. When the deserialization of a record raises the stream-ended error, at a record
  boundary or inside a record, the pull closes the controller: it enqueues nothing and
  throws nothing, and the event sequence read from there on is empty and ends closed.
  The witness has both cases: no byte left, and a record cut one byte short.
\<close>

theorem pull_stream_ended_closes:
  assumes "VideoPacket_deserialize (stream st) = Inl BufferedStreamEndedError"
  shows "pull parse st = (Close, st\<lparr>stream := []\<rparr>) \<and> run parse st = ([], Closed)"
  using assms by (simp add: run.simps pull_def pull_try_def)

theorem pull_stream_ended_closes_witness:
  "pull (\<lambda>d. Inl (JsError ''not a parameter set'')) \<lparr> stream = [], header = Some [103] \<rparr>
     = (Close, \<lparr> stream = [], header = Some [103] \<rparr>)
   \<and> run (\<lambda>d. Inl (JsError ''not a parameter set'')) \<lparr> stream = [], header = Some [103] \<rparr>
     = ([], Closed)
   \<and> pull (\<lambda>d. Inl (JsError ''not a parameter set''))
       \<lparr> stream = [0, 0, 0, 0, 0, 0, 0, 5, 0, 0, 0, 2, 170], header = None \<rparr>
     = (Close, \<lparr> stream = [], header = None \<rparr>)
   \<and> run (\<lambda>d. Inl (JsError ''not a parameter set''))
       \<lparr> stream = [0, 0, 0, 0, 0, 0, 0, 5, 0, 0, 0, 2, 170], header = None \<rparr>
     = ([], Closed)"
proof -
  have a: "VideoPacket_deserialize (stream \<lparr> stream = [], header = Some [103] \<rparr>)
             = Inl BufferedStreamEndedError"
    by (simp add: VideoPacket_deserialize_def read_def)
  have b: "VideoPacket_deserialize
             (stream \<lparr> stream = [0, 0, 0, 0, 0, 0, 0, 5, 0, 0, 0, 2, 170], header = None \<rparr>)
             = Inl BufferedStreamEndedError"
    by (simp add: VideoPacket_deserialize_def read_def getUint_def)
  show ?thesis
    using pull_stream_ended_closes [OF a, of "\<lambda>d. Inl (JsError ''not a parameter set'')"]
      pull_stream_ended_closes [OF b, of "\<lambda>d. Inl (JsError ''not a parameter set'')"]
    by simp
qed

text \<open>
  C5. \<^verbatim>\<open>createConnection\<close> returns the forward connection when the stored
  \<^verbatim>\<open>tunnelForward\<close> is true and the reverse connection otherwise, also when it is
  absent; the connection options are control, sendDummyByte and sendDeviceMeta all true
  in both, whatever the user's \<^verbatim>\<open>control\<close> is.
\<close>

theorem createConnection_tunnel:
  "createConnection this adb =
     (if tunnelForward (optValue this) = Some True
      then ScrcpyClientForwardConnection adb
             \<lparr> ScrcpyClientConnectionOptions.control = True, sendDummyByte = True,
               sendDeviceMeta = True \<rparr>
      else ScrcpyClientReverseConnection adb
             \<lparr> ScrcpyClientConnectionOptions.control = True, sendDummyByte = True,
               sendDeviceMeta = True \<rparr>)"
  by (cases "tunnelForward (optValue this)") (auto simp: createConnection_def of_opt_def)

theorem createConnection_tunnel_witness:
  "createConnection (new_ScrcpyOptions1_16 True (emptyInit\<lparr> control := Some False \<rparr>)) (0::nat)
     = ScrcpyClientReverseConnection 0
         \<lparr> ScrcpyClientConnectionOptions.control = True, sendDummyByte = True,
           sendDeviceMeta = True \<rparr>
   \<and> createConnection
       (new_ScrcpyOptions1_16 True (emptyInit\<lparr> tunnelForward := Some True, control := Some False \<rparr>))
       (0::nat)
     = ScrcpyClientForwardConnection 0
         \<lparr> ScrcpyClientConnectionOptions.control = True, sendDummyByte = True,
           sendDeviceMeta = True \<rparr>"
  by (simp add: createConnection_tunnel new_ScrcpyOptions1_16_def emptyInit_def)

text \<open>
  C6. Constructed as the base class itself, the instance stores the log level verbose as
  debug and the orientation Initial as Unlocked, and every other field (and every other
  log level and orientation) as given; constructed through a subclass, it stores the
  input unchanged.
\<close>

theorem new_ScrcpyOptions1_16_normalizes:
  "optValue (new_ScrcpyOptions1_16 True v) =
     v\<lparr> logLevel := (if logLevel v = Some Verbose then Some Debug else logLevel v),
        lockVideoOrientation :=
          (if lockVideoOrientation v = Some Initial then Some Unlocked
           else lockVideoOrientation v) \<rparr>
   \<and> optValue (new_ScrcpyOptions1_16 False v) = v"
  by (simp add: new_ScrcpyOptions1_16_def)

theorem new_ScrcpyOptions1_16_normalizes_witness:
  "optValue (new_ScrcpyOptions1_16 True
      (emptyInit\<lparr> logLevel := Some Verbose, lockVideoOrientation := Some Initial,
                   maxSize := Some 1080 \<rparr>))
     = emptyInit\<lparr> logLevel := Some Debug, lockVideoOrientation := Some Unlocked,
                  maxSize := Some 1080 \<rparr>
   \<and> optValue (new_ScrcpyOptions1_16 False
      (emptyInit\<lparr> logLevel := Some Verbose, lockVideoOrientation := Some Initial,
                   maxSize := Some 1080 \<rparr>))
     = emptyInit\<lparr> logLevel := Some Verbose, lockVideoOrientation := Some Initial,
                  maxSize := Some 1080 \<rparr>"
  by (simp add: new_ScrcpyOptions1_16_normalizes emptyInit_def)

text \<open>
  C7. \<^verbatim>\<open>serializeBackOrScreenOnControlMessage\<close> returns bytes only for the action
  down, and then the one byte of the message's type; for the action up it returns
  \<^verbatim>\<open>undefined\<close>, a result and not an error.
\<close>

theorem serializeBackOrScreenOnControlMessage_down_only:
  "serializeBackOrScreenOnControlMessage message =
     (if action message = Down then Some [type message] else None)"
  by (simp add: serializeBackOrScreenOnControlMessage_def
      ScrcpyBackOrScreenOnEvent1_16_serialize_def)

theorem serializeBackOrScreenOnControlMessage_down_only_witness:
  "serializeBackOrScreenOnControlMessage \<lparr> type = 4, action = Down \<rparr> = Some [4]
   \<and> serializeBackOrScreenOnControlMessage \<lparr> type = 4, action = Up \<rparr> = None"
  by (simp add: serializeBackOrScreenOnControlMessage_down_only)

text \<open>
  C8. Over the list of candidates in force (the caller's, or the default one when the
  caller gave none), \<^verbatim>\<open>createProtocol\<close> and \<^verbatim>\<open>createShell\<close> spawn with the
  first candidate whose \<^verbatim>\<open>isSupported\<close> is true; when no candidate is supported
  they throw their error; and whatever they return was spawned by a supported candidate
  of the list.
\<close>

theorem createProtocol_first_supported:
  fixes DefaultOptions :: "('adb, 'p) AdbSubprocessProtocolConstructor list"
  assumes "protocols = (case options of None \<Rightarrow> DefaultOptions | Some ps \<Rightarrow> ps)"
  shows "(\<forall>pre c post. protocols = pre @ c # post \<and> (\<forall>p\<in>set pre. \<not> isSupported p adb)
            \<and> isSupported c adb
          \<longrightarrow> createProtocol DefaultOptions adb command options = Inr (spawn c adb command)
            \<and> createShell DefaultOptions adb command options = Inr (spawn c adb command))
     \<and> ((\<forall>p\<in>set protocols. \<not> isSupported p adb)
          \<longrightarrow> createProtocol DefaultOptions adb command options
                = Inl (JsError ''No specified protocol is supported by the device'')
            \<and> createShell DefaultOptions adb command options
                = Inl (JsError ''No specified shell is supported by the device''))
     \<and> (\<forall>r. createProtocol DefaultOptions adb command options = Inr r
             \<or> createShell DefaultOptions adb command options = Inr r
          \<longrightarrow> (\<exists>c\<in>set protocols. isSupported c adb \<and> r = spawn c adb command))"
proof (intro conjI)
  show "\<forall>pre c post. protocols = pre @ c # post \<and> (\<forall>p\<in>set pre. \<not> isSupported p adb)
            \<and> isSupported c adb
          \<longrightarrow> createProtocol DefaultOptions adb command options = Inr (spawn c adb command)
            \<and> createShell DefaultOptions adb command options = Inr (spawn c adb command)"
    using assms by (auto simp: createProtocol_def createShell_def first_supported_first)
  show "(\<forall>p\<in>set protocols. \<not> isSupported p adb)
          \<longrightarrow> createProtocol DefaultOptions adb command options
                = Inl (JsError ''No specified protocol is supported by the device'')
            \<and> createShell DefaultOptions adb command options
                = Inl (JsError ''No specified shell is supported by the device'')"
    using assms first_supported_None_iff [of adb protocols]
    by (auto simp: createProtocol_def createShell_def)
  show "\<forall>r. createProtocol DefaultOptions adb command options = Inr r
             \<or> createShell DefaultOptions adb command options = Inr r
          \<longrightarrow> (\<exists>c\<in>set protocols. isSupported c adb \<and> r = spawn c adb command)"
    using assms
    by (auto simp: createProtocol_def createShell_def split: option.splits
        dest: first_supported_Some)
qed

theorem createProtocol_first_supported_witness:
  "createProtocol
      [\<lparr> name = ''shell'', isSupported = (\<lambda>adb::unit. False), spawn = (\<lambda>adb command. (''shell'', command)) \<rparr>]
      () ''ls''
      (Some [\<lparr> name = ''shell'', isSupported = (\<lambda>adb. False), spawn = (\<lambda>adb command. (''shell'', command)) \<rparr>,
             \<lparr> name = ''none'', isSupported = (\<lambda>adb. True), spawn = (\<lambda>adb command. (''none'', command)) \<rparr>,
             \<lparr> name = ''raw'', isSupported = (\<lambda>adb. True), spawn = (\<lambda>adb command. (''raw'', command)) \<rparr>])
     = Inr (''none'', ''ls'')
   \<and> createShell
      [\<lparr> name = ''shell'', isSupported = (\<lambda>adb::unit. False), spawn = (\<lambda>adb command. (''shell'', command)) \<rparr>]
      () ''ls''
      (Some [\<lparr> name = ''shell'', isSupported = (\<lambda>adb. False), spawn = (\<lambda>adb command. (''shell'', command)) \<rparr>,
             \<lparr> name = ''none'', isSupported = (\<lambda>adb. True), spawn = (\<lambda>adb command. (''none'', command)) \<rparr>,
             \<lparr> name = ''raw'', isSupported = (\<lambda>adb. True), spawn = (\<lambda>adb command. (''raw'', command)) \<rparr>])
     = Inr (''none'', ''ls'')
   \<and> createProtocol
      [\<lparr> name = ''none'', isSupported = (\<lambda>adb::unit. True), spawn = (\<lambda>adb command. (''none'', command)) \<rparr>]
      () ''ls''
      (Some [\<lparr> name = ''shell'', isSupported = (\<lambda>adb. False), spawn = (\<lambda>adb command. (''shell'', command)) \<rparr>])
     = Inl (JsError ''No specified protocol is supported by the device'')
   \<and> createShell
      [\<lparr> name = ''none'', isSupported = (\<lambda>adb::unit. True), spawn = (\<lambda>adb command. (''none'', command)) \<rparr>]
      () ''ls''
      (Some [\<lparr> name = ''shell'', isSupported = (\<lambda>adb. False), spawn = (\<lambda>adb command. (''shell'', command)) \<rparr>])
     = Inl (JsError ''No specified shell is supported by the device'')"
proof -
  let ?A = "\<lparr> name = ''shell'', isSupported = (\<lambda>adb::unit. False),
              spawn = (\<lambda>adb command. (''shell'', command)) \<rparr>"
  let ?B = "\<lparr> name = ''none'', isSupported = (\<lambda>adb::unit. True),
              spawn = (\<lambda>adb command. (''none'', command)) \<rparr>"
  let ?C = "\<lparr> name = ''raw'', isSupported = (\<lambda>adb::unit. True),
              spawn = (\<lambda>adb command. (''raw'', command)) \<rparr>"
  have l: "[?A, ?B, ?C] = (case Some [?A, ?B, ?C] of None \<Rightarrow> [?A] | Some ps \<Rightarrow> ps)"
    by simp
  have m: "[?A] = (case Some [?A] of None \<Rightarrow> [?B] | Some ps \<Rightarrow> ps)"
    by simp
  have s: "[?A, ?B, ?C] = [?A] @ ?B # [?C] \<and> (\<forall>p\<in>set [?A]. \<not> isSupported p ())
            \<and> isSupported ?B ()"
    by simp
  have n: "\<forall>p\<in>set [?A]. \<not> isSupported p ()"
    by simp
  from createProtocol_first_supported [OF l, of "()" "''ls''", THEN conjunct1, rule_format, OF s]
  have 1: "createProtocol [?A] () ''ls'' (Some [?A, ?B, ?C]) = Inr (''none'', ''ls'')
           \<and> createShell [?A] () ''ls'' (Some [?A, ?B, ?C]) = Inr (''none'', ''ls'')"
    by simp
  from createProtocol_first_supported [OF m, of "()" "''ls''", THEN conjunct2, THEN conjunct1,
      THEN mp, OF n]
  have 2: "createProtocol [?B] () ''ls'' (Some [?A])
             = Inl (JsError ''No specified protocol is supported by the device'')
           \<and> createShell [?B] () ''ls'' (Some [?A])
             = Inl (JsError ''No specified shell is supported by the device'')"
    by simp
  from 1 2 show ?thesis by simp
qed

text \<open>
  C9. On an instance built from the empty configuration, as the base class or through a
  subclass that keeps the order and the defaults, \<^verbatim>\<open>formatServerArguments\<close>
  returns the rendered defaults in the order logLevel to encoderName; the empty default
  \<^verbatim>\<open>CodecOptions\<close>, whose \<^verbatim>\<open>toOptionValue\<close> is \<^verbatim>\<open>undefined\<close>, is rendered
  as the placeholder \<^verbatim>\<open>-\<close>.
\<close>

theorem formatServerArguments_empty:
  "formatServerArguments (new_ScrcpyOptions1_16 is_base emptyInit)
     = [''debug'', ''0'', ''8000000'', ''0'', ''-1'', ''false'', ''-'', ''true'', ''true'', ''0'',
        ''false'', ''false'', ''-'', ''-'']
   \<and> toOptionValue (CodecOptions []) = None
   \<and> formatServerArguments (new_ScrcpyOptions1_16 is_base emptyInit) ! 12 = ''-''"
  by (simp add: formatServerArguments_def new_ScrcpyOptions1_16_def emptyInit_def
      getArgumentOrder_def getDefaultValue_def js_or_def of_opt_def number_toString_def digit_def
      nat_toString.simps)

text \<open>
  C10. \<^verbatim>\<open>parseVideoStream\<close> passes the chunks of the source through, each wrapped
  as a frame, only when the stored \<^verbatim>\<open>sendFrameMeta\<close> is \<^verbatim>\<open>false\<close>; when it is
  absent or \<^verbatim>\<open>true\<close> the stream is decoded by the pulls of the metadata mode, from
  an undefined header. The witness is one chunk that holds one frame record: without
  \<^verbatim>\<open>sendFrameMeta\<close> the frame is the record's data, with \<^verbatim>\<open>false\<close> it is the
  whole chunk.
\<close>

theorem parseVideoStream_mode:
  "parseVideoStream parse this chunks =
     (if sendFrameMeta (optValue this) = Some False then (map Frame chunks, Closed)
      else run parse \<lparr> stream = concat chunks, header = None \<rparr>)"
  by (cases "sendFrameMeta (optValue this)") (auto simp: parseVideoStream_def of_opt_def)

theorem parseVideoStream_mode_witness:
  "parseVideoStream (\<lambda>d. Inl (JsError ''not a parameter set''))
      (new_ScrcpyOptions1_16 True emptyInit)
      [[0, 0, 0, 0, 0, 0, 0, 5, 0, 0, 0, 2, 170, 187]]
     = ([Frame [170, 187]], Closed)
   \<and> parseVideoStream (\<lambda>d. Inl (JsError ''not a parameter set''))
      (new_ScrcpyOptions1_16 True (emptyInit\<lparr> sendFrameMeta := Some False \<rparr>))
      [[0, 0, 0, 0, 0, 0, 0, 5, 0, 0, 0, 2, 170, 187]]
     = ([Frame [0, 0, 0, 0, 0, 0, 0, 5, 0, 0, 0, 2, 170, 187]], Closed)"
proof -
  have d: "VideoPacket_deserialize [0, 0, 0, 0, 0, 0, 0, 5, 0, 0, 0, 2, 170, 187]
             = Inr (\<lparr> pts = 5, size_u32 = 2, data = [170, 187] \<rparr>, [])"
    by (simp add: VideoPacket_deserialize_def read_def getUint_def getInt64_def)
  have e: "VideoPacket_deserialize [] = Inl BufferedStreamEndedError"
    by (simp add: VideoPacket_deserialize_def read_def)
  have r: "run (\<lambda>d. Inl (JsError ''not a parameter set''))
             \<lparr> stream = [0, 0, 0, 0, 0, 0, 0, 5, 0, 0, 0, 2, 170, 187], header = None \<rparr>
           = ([Frame [170, 187]], Closed)"
    by (simp add: run.simps pull_def pull_try_def d e NoPts_def)
  show ?thesis
    by (simp add: parseVideoStream_mode new_ScrcpyOptions1_16_def emptyInit_def r)
qed

end
